theory Spec2Isabelle
  imports Complex_Main "HOL-Library.Sublist"
begin

section \<open>Python values, dictionaries and strings\<close>

text \<open>
  The values that travel through the library are JSON-shaped Python objects. A Python
  \<open>dict\<close> keeps its keys in insertion order, so it is an association list with string
  keys; a \<open>float\<close> is only ever carried along (never computed with) and is a \<open>real\<close>.
  Strings are lists of characters with code points below 256.
\<close>

datatype pyval =
    PNone
  | PBool bool
  | PInt int
  | PFloat real
  | PStr string
  | PList "pyval list"
  | PDict "(string \<times> pyval) list"

type_synonym dict = "(string \<times> pyval) list"

text \<open>\<open>d[k] = v\<close>: an existing key keeps its position, a new key goes to the end.\<close>

fun dict_set :: "dict \<Rightarrow> string \<Rightarrow> pyval \<Rightarrow> dict" where
  "dict_set [] k v = [(k, v)]"
| "dict_set ((k', v') # d) k v =
     (if k' = k then (k, v) # d else (k', v') # dict_set d k v)"

text \<open>\<open>d.get(k)\<close>, with \<open>None\<close> for a missing key.\<close>

definition dict_get :: "dict \<Rightarrow> string \<Rightarrow> pyval option" where
  "dict_get d k = map_of d k"

text \<open>
  \<open>str.isspace\<close> on one character, for the code points below 256: tab, line feed,
  vertical tab, form feed, carriage return, the four separators 0x1C..0x1F, space,
  next line (0x85) and no-break space (0xA0).
\<close>

definition whitespace :: "char list" where
  "whitespace = [CHR 0x09, CHR 0x0A, CHR 0x0B, CHR 0x0C, CHR 0x0D,
                 CHR 0x1C, CHR 0x1D, CHR 0x1E, CHR 0x1F, CHR 0x20, CHR 0x85, CHR 0xA0]"

definition isspace :: "char \<Rightarrow> bool" where
  "isspace c = (c \<in> set whitespace)"

text \<open>\<open>s.rstrip(chars)\<close>, \<open>s.lstrip()\<close> and \<open>s.strip()\<close>.\<close>

definition rstrip_chars :: "char list \<Rightarrow> string \<Rightarrow> string" where
  "rstrip_chars cs s = rev (dropWhile (\<lambda>c. c \<in> set cs) (rev s))"

definition strip :: "string \<Rightarrow> string" where
  "strip s = rev (dropWhile isspace (rev (dropWhile isspace s)))"

section \<open>Exceptions (exceptions.py and the built-in \<open>ValueError\<close>)\<close>

text \<open>
  Every raise of the source is a value of this type. \<open>ValueError m\<close> is the built-in
  class with message \<open>m\<close>; \<open>AuthenticationError m\<close> and \<open>ToolError tool_name m\<close> are the
  classes of exceptions.py; \<open>OtherException cls m\<close> is an exception of any other class
  \<open>cls\<close>, which a user-supplied function or the introspection of a callable may raise.
\<close>

datatype py_exception =
    ValueError string
  | AuthenticationError string
  | ToolError string string
  | OtherException string string

text \<open>The class of an exception, which is what an \<open>except\<close> clause branches on.\<close>

fun exception_class :: "py_exception \<Rightarrow> string" where
  "exception_class (ValueError m) = ''ValueError''"
| "exception_class (AuthenticationError m) = ''AuthenticationError''"
| "exception_class (ToolError n m) = ''ToolError''"
| "exception_class (OtherException cls m) = cls"

text \<open>
  \<open>ToolError.__init__\<close> stores \<open>tool_name\<close> and passes
  \<open>f"Tool '{tool_name}' failed: {message}"\<close> on as the message.
\<close>

fun exception_message :: "py_exception \<Rightarrow> string" where
  "exception_message (ValueError m) = m"
| "exception_message (AuthenticationError m) = m"
| "exception_message (ToolError n m) = ''Tool '' @ [CHR 0x27] @ n @ [CHR 0x27] @ '' failed: '' @ m"
| "exception_message (OtherException cls m) = m"

section \<open>Callables as seen by introspection (tool.py)\<close>

text \<open>
  \<open>Tool.from_function\<close> reads a callable through \<open>__name__\<close>, \<open>__doc__\<close>,
  \<open>get_type_hints\<close> and \<open>inspect.signature\<close>, and \<open>Tool.__call__\<close> calls it with
  keyword arguments. Each of these can raise, and \<open>from_function\<close> has no handler, so
  a callable is the record of their outcomes, an exception or a value:
  \<^item> \<open>fn_name\<close> is the outcome of \<open>func.__name__\<close> (an \<open>AttributeError\<close> for a
    \<open>functools.partial\<close> object or a callable instance, which have no such attribute);
  \<^item> \<open>fn_doc\<close> is \<open>func.__doc__\<close>, which every object has;
  \<^item> \<open>has_annotations\<close> is \<open>hasattr(func, "__annotations__")\<close>;
  \<^item> \<open>type_hints\<close> is the outcome of \<open>get_type_hints(func)\<close>: the dictionary of the
    evaluated annotations (which also holds the key \<open>return\<close>), or the exception of an
    annotation that cannot be evaluated (a \<open>NameError\<close> for an unknown forward
    reference);
  \<^item> \<open>sig_parameters\<close> is the outcome of \<open>inspect.signature(func).parameters\<close>, an
    ordered mapping whose names are distinct (a \<open>ValueError\<close> when no signature is
    found);
  \<^item> \<open>fn_call\<close> is the outcome of a call.
  Exceptions of classes that have no constructor of their own are
  \<open>OtherException cls message\<close>.
\<close>

text \<open>
  An evaluated annotation. \<open>T_other n\<close> is any hashable object other than the six
  keys of the table (a class such as \<open>bytes\<close>, a typing construct such as
  \<open>Optional[str]\<close>). \<open>T_unhashable e\<close> is an object that cannot be hashed, such as the
  list \<open>[int]\<close>; \<open>e\<close> is the exception that hashing it raises.
\<close>

datatype py_type =
    T_str | T_int | T_float | T_bool | T_list | T_dict
  | T_other string
  | T_unhashable py_exception

text \<open>\<open>param_default = None\<close> stands for \<open>param.default is inspect.Parameter.empty\<close>.\<close>

record parameter =
  param_default :: "pyval option"

record py_function =
  fn_name :: "py_exception + string"
  fn_doc :: "string option"
  has_annotations :: bool
  type_hints :: "py_exception + (string \<times> py_type) list"
  sig_parameters :: "py_exception + (string \<times> parameter) list"
  fn_call :: "dict \<Rightarrow> py_exception + pyval"

record tool =
  tool_name :: string
  tool_description :: string
  tool_parameters :: dict
  tool_function :: "py_function option"

text \<open>
  \<open>_python_type_to_json\<close>: the table lookup \<open>type_map.get(python_type, "string")\<close>.
  The lookup hashes its key first, so an unhashable key raises instead of taking the
  default.
\<close>

fun python_type_to_json :: "py_type \<Rightarrow> py_exception + string" where
  "python_type_to_json T_str = Inr ''string''"
| "python_type_to_json T_int = Inr ''integer''"
| "python_type_to_json T_float = Inr ''number''"
| "python_type_to_json T_bool = Inr ''boolean''"
| "python_type_to_json T_list = Inr ''array''"
| "python_type_to_json T_dict = Inr ''object''"
| "python_type_to_json (T_other n) = Inr ''string''"
| "python_type_to_json (T_unhashable e) = Inl e"

text \<open>\<open>Tool.__call__\<close>.\<close>

definition tool_call :: "tool \<Rightarrow> dict \<Rightarrow> py_exception + pyval" where
  "tool_call self kwargs =
     (case tool_function self of
        None \<Rightarrow> Inl (ValueError (''Tool '' @ [CHR 0x27] @ tool_name self @ [CHR 0x27]
                                   @ '' has no function defined''))
      | Some func \<Rightarrow> fn_call func kwargs)"

text \<open>\<open>Tool.to_dict\<close>: the dictionary it returns.\<close>

definition to_dict :: "tool \<Rightarrow> dict" where
  "to_dict self =
     [(''type'', PStr ''function''),
      (''function'', PDict [(''name'', PStr (tool_name self)),
                            (''description'', PStr (tool_description self)),
                            (''parameters'', PDict (tool_parameters self))])]"

text \<open>
  The call \<open>self.to_dict()\<close> as a step on the tool object: the returned dictionary and
  the object after the call. The body is a single \<open>return\<close> of a dictionary display:
  it assigns to no field and calls nothing.
\<close>

definition to_dict_call :: "tool \<Rightarrow> dict \<times> tool" where
  "to_dict_call self = (to_dict self, self)"

text \<open>
  \<open>hints = get_type_hints(func) if hasattr(func, "__annotations__") else {}\<close>.
\<close>

definition hints_of :: "py_function \<Rightarrow> py_exception + (string \<times> py_type) list" where
  "hints_of func = (if has_annotations func then type_hints func else Inr [])"

text \<open>\<open>hints.get(param_name, str)\<close>.\<close>

definition hints_get :: "(string \<times> py_type) list \<Rightarrow> string \<Rightarrow> py_type" where
  "hints_get hints param_name = (case map_of hints param_name of None \<Rightarrow> T_str | Some t \<Rightarrow> t)"

text \<open>The dictionary display stored under a parameter's name.\<close>

definition parameter_schema :: "string \<Rightarrow> string \<Rightarrow> pyval" where
  "parameter_schema json_type param_name =
     PDict [(''type'', PStr json_type),
            (''description'', PStr (''Parameter: '' @ param_name))]"

text \<open>
  The loop of \<open>from_function\<close> over \<open>sig.parameters.items()\<close>, threading the two
  locals \<open>properties\<close> and \<open>required\<close>. It ends at the first parameter whose
  annotation makes \<open>_python_type_to_json\<close> raise.
\<close>

fun param_loop ::
  "(string \<times> py_type) list \<Rightarrow> (string \<times> parameter) list \<Rightarrow> dict \<Rightarrow> string list
     \<Rightarrow> py_exception + dict \<times> string list" where
  "param_loop hints [] properties required = Inr (properties, required)"
| "param_loop hints ((param_name, param) # rest) properties required =
     (if param_name = ''self'' then param_loop hints rest properties required
      else
        let param_type = hints_get hints param_name
        in case python_type_to_json param_type of
             Inl e \<Rightarrow> Inl e
           | Inr json_type \<Rightarrow>
               let properties' = dict_set properties param_name
                                   (parameter_schema json_type param_name);
                   required' = (if param_default param = None
                                then required @ [param_name] else required)
               in param_loop hints rest properties' required')"

text \<open>
  The schema part of \<open>from_function\<close>: the locals \<open>hints\<close>, \<open>sig\<close>, \<open>properties\<close>,
  \<open>required\<close> and the resulting \<open>parameters\<close>, with the key \<open>required\<close> set only when
  the list is not empty. \<open>get_type_hints\<close> is called before \<open>inspect.signature\<close>.
\<close>

definition derive_parameters :: "py_function \<Rightarrow> py_exception + dict" where
  "derive_parameters func =
     (case hints_of func of
        Inl e \<Rightarrow> Inl e
      | Inr hints \<Rightarrow>
          (case sig_parameters func of
             Inl e \<Rightarrow> Inl e
           | Inr sig \<Rightarrow>
               (case param_loop hints sig [] [] of
                  Inl e \<Rightarrow> Inl e
                | Inr (properties, required) \<Rightarrow>
                    let parameters = [(''type'', PStr ''object''),
                                      (''properties'', PDict properties)]
                    in Inr (if required \<noteq> []
                            then dict_set parameters ''required'' (PList (map PStr required))
                            else parameters))))"

text \<open>
  \<open>Tool.from_function\<close>. \<open>func.__name__\<close> is read first. In
  \<open>func.__doc__ or f"Execute {name}"\<close> the right operand is taken when the docstring
  is \<open>None\<close> or the empty string.
\<close>

definition from_function :: "py_function \<Rightarrow> py_exception + tool" where
  "from_function func =
     (case fn_name func of
        Inl e \<Rightarrow> Inl e
      | Inr name \<Rightarrow>
          let description = (case fn_doc func of
                               None \<Rightarrow> ''Execute '' @ name
                             | Some d \<Rightarrow> if d = [] then ''Execute '' @ name else d)
          in case derive_parameters func of
               Inl e \<Rightarrow> Inl e
             | Inr parameters \<Rightarrow>
                 Inr \<lparr>tool_name = name, tool_description = strip description,
                      tool_parameters = parameters, tool_function = Some func\<rparr>)"

text \<open>The decorator \<open>tool\<close>.\<close>

definition tool_decorator :: "py_function \<Rightarrow> py_exception + tool" where
  "tool_decorator func = from_function func"

section \<open>The agent (agent.py)\<close>

text \<open>
  An entry of the \<open>tools\<close> argument is a bare callable or a \<open>Tool\<close>. After
  \<open>__post_init__\<close> the field holds \<open>Tool\<close> objects only, which is the type of the
  record field. The field \<open>_client\<close> is never read or written by any method and is
  left out; \<open>_conversation_history\<close> starts as the empty list of its default factory.
\<close>

datatype tool_entry = Callable py_function | ToolObject tool

record agent =
  name :: string
  model :: string
  system_prompt :: "string option"
  tools :: "tool list"
  memory_enabled :: bool
  max_tokens :: int
  temperature :: real
  conversation_history :: "dict list"

record agent_response =
  content :: string
  response_model :: string
  tool_calls :: "dict list"
  usage :: "dict option"

text \<open>The defaults of the dataclass fields.\<close>

definition default_model :: string where
  "default_model = ''claude-3-sonnet''"

definition default_max_tokens :: int where
  "default_max_tokens = 4096"

definition default_temperature :: real where
  "default_temperature = 7 / 10"

text \<open>
  The loop of \<open>Agent.__post_init__\<close>. An exception of \<open>Tool.from_function\<close> ends it.
\<close>

fun process_tools :: "tool_entry list \<Rightarrow> tool list \<Rightarrow> py_exception + tool list" where
  "process_tools [] processed_tools = Inr processed_tools"
| "process_tools (Callable t # rest) processed_tools =
     (case from_function t of
        Inl e \<Rightarrow> Inl e
      | Inr made \<Rightarrow> process_tools rest (processed_tools @ [made]))"
| "process_tools (ToolObject t # rest) processed_tools =
     process_tools rest (processed_tools @ [t])"

text \<open>
  The generated \<open>__init__\<close> followed by \<open>__post_init__\<close>; an exception of the latter
  leaves the constructor, and no agent is built.
\<close>

definition Agent_init ::
  "string \<Rightarrow> string \<Rightarrow> string option \<Rightarrow> tool_entry list \<Rightarrow> bool \<Rightarrow> int \<Rightarrow> real
     \<Rightarrow> py_exception + agent" where
  "Agent_init name' model' system_prompt' tools' memory_enabled' max_tokens' temperature' =
     (case process_tools tools' [] of
        Inl e \<Rightarrow> Inl e
      | Inr processed_tools \<Rightarrow>
          Inr \<lparr>name = name', model = model', system_prompt = system_prompt',
               tools = processed_tools, memory_enabled = memory_enabled',
               max_tokens = max_tokens', temperature = temperature',
               conversation_history = []\<rparr>)"

text \<open>The two dictionaries that \<open>run\<close> appends to the history.\<close>

definition user_entry :: "string \<Rightarrow> dict" where
  "user_entry message = [(''role'', PStr ''user''), (''content'', PStr message)]"

definition assistant_entry :: "string \<Rightarrow> dict" where
  "assistant_entry response_content =
     [(''role'', PStr ''assistant''), (''content'', PStr response_content)]"

text \<open>The placeholder text \<open>f"[Agent '{self.name}' would process: {message}]"\<close>.\<close>

definition placeholder_content :: "agent \<Rightarrow> string \<Rightarrow> string" where
  "placeholder_content self message =
     ''[Agent '' @ [CHR 0x27] @ name self @ [CHR 0x27] @ '' would process: '' @ message @ '']''"

text \<open>
  The local \<open>request\<close> of \<open>run\<close> as it stands after the two optional keys are set,
  given the agent after the first append. \<open>if self.system_prompt\<close> holds for a
  non-empty string, \<open>if self.tools\<close> for a non-empty list.
\<close>

definition build_request :: "agent \<Rightarrow> string \<Rightarrow> dict" where
  "build_request self message =
     (let request = [(''model'', PStr (model self)),
                     (''messages'', PList (map PDict
                        (if memory_enabled self then conversation_history self
                         else [user_entry message]))),
                     (''max_tokens'', PInt (max_tokens self)),
                     (''temperature'', PFloat (temperature self))];
          request1 = (case system_prompt self of
                        None \<Rightarrow> request
                      | Some p \<Rightarrow> if p = [] then request
                                  else dict_set request ''system'' (PStr p));
          request2 = (if tools self \<noteq> []
                      then dict_set request1 ''tools'' (PList (map (PDict \<circ> to_dict) (tools self)))
                      else request1)
      in request2)"

text \<open>
  \<open>Agent.run\<close>, returning the local \<open>request\<close>, the response and the agent after the
  call. The argument \<open>context\<close> is accepted and never used.
\<close>

definition run_locals :: "agent \<Rightarrow> string \<Rightarrow> dict option \<Rightarrow> dict \<times> agent_response \<times> agent" where
  "run_locals self message context =
     (let self1 = self\<lparr>conversation_history := conversation_history self @ [user_entry message]\<rparr>;
          request = build_request self1 message;
          response = \<lparr>content = placeholder_content self1 message,
                      response_model = model self1, tool_calls = [], usage = None\<rparr>;
          self2 = (if memory_enabled self1
                   then self1\<lparr>conversation_history :=
                          conversation_history self1 @ [assistant_entry (content response)]\<rparr>
                   else self1)
      in (request, response, self2))"

definition run :: "agent \<Rightarrow> string \<Rightarrow> dict option \<Rightarrow> agent_response \<times> agent" where
  "run self message context = snd (run_locals self message context)"

text \<open>\<open>Agent.clear_memory\<close>.\<close>

definition clear_memory :: "agent \<Rightarrow> agent" where
  "clear_memory self = self\<lparr>conversation_history := []\<rparr>"

text \<open>A sequence of calls \<open>agent.run(message, context)\<close> on one agent, in order.\<close>

fun run_calls :: "agent \<Rightarrow> (string \<times> dict option) list \<Rightarrow> agent" where
  "run_calls self [] = self"
| "run_calls self ((message, context) # rest) = run_calls (snd (run self message context)) rest"

section \<open>The client constructor (client.py)\<close>

text \<open>
  \<open>Client.__init__\<close> touches the HTTP library only by constructing an
  \<open>httpx.Client\<close>. The calls into the HTTP library are recorded in a log that the
  constructor takes and returns, so that what happens before a raise is visible.
  The three resource objects only hold a reference back to the client.
\<close>

record http_client =
  http_base_url :: string
  http_headers :: "(string \<times> string) list"
  http_timeout :: int

datatype http_event = ClientCreated http_client | RequestSent string string | ClientClosed

record client =
  api_key :: string
  base_url :: string
  timeout :: int
  debug :: bool
  client_http :: http_client

definition DEFAULT_BASE_URL :: string where
  "DEFAULT_BASE_URL = ''https://api.gagiteck.com/v1''"

definition Client_init ::
  "http_event list \<Rightarrow> string option \<Rightarrow> string option \<Rightarrow> int \<Rightarrow> bool
     \<Rightarrow> (py_exception + client) \<times> http_event list" where
  "Client_init events api_key' base_url' timeout' debug' =
     (case api_key' of
        None \<Rightarrow> (Inl (AuthenticationError ''API key is required''), events)
      | Some key \<Rightarrow>
          if key = [] then (Inl (AuthenticationError ''API key is required''), events)
          else if \<not> prefix ''ggt_'' key
          then (Inl (AuthenticationError
                  (''Invalid API key format. Key should start with ''
                     @ [CHR 0x27] @ ''ggt_'' @ [CHR 0x27])), events)
          else
            let url = rstrip_chars ''/''
                        (case base_url' of
                           None \<Rightarrow> DEFAULT_BASE_URL
                         | Some u \<Rightarrow> if u = [] then DEFAULT_BASE_URL else u);
                http = \<lparr>http_base_url = url,
                        http_headers = [(''Authorization'', ''Bearer '' @ key),
                                        (''Content-Type'', ''application/json''),
                                        (''User-Agent'', ''gagiteck-python/0.1.0'')],
                        http_timeout = timeout'\<rparr>
            in (Inr \<lparr>api_key = key, base_url = url, timeout = timeout', debug = debug',
                     client_http = http\<rparr>,
                events @ [ClientCreated http]))"

section \<open>Reading a derived schema\<close>


text \<open>Whether \<open>hash\<close> returns for an annotation.\<close>

fun hashable :: "py_type \<Rightarrow> bool" where
  "hashable (T_unhashable e) = False"
| "hashable t = True"

text \<open>
  Whether every parameter that the loop does not skip has an annotation that the table
  lookup can hash.
\<close>

definition hashable_annotations ::
  "(string \<times> py_type) list \<Rightarrow> (string \<times> parameter) list \<Rightarrow> bool" where
  "hashable_annotations hints sig =
     list_all (\<lambda>(param_name, param). param_name = ''self'' \<or> hashable (hints_get hints param_name))
       sig"

section \<open>Example inputs\<close>

text \<open>\<open>def greet(name: str) -> str\<close> with the docstring \<open>Greets a person.\<close>\<close>

definition greet :: py_function where
  "greet = \<lparr>fn_name = Inr ''greet'', fn_doc = Some ''Greets a person.'',
            has_annotations = True,
            type_hints = Inr [(''name'', T_str), (''return'', T_str)],
            sig_parameters = Inr [(''name'', \<lparr>param_default = None\<rparr>)],
            fn_call = (\<lambda>kwargs. case dict_get kwargs ''name'' of
                                   Some (PStr n) \<Rightarrow> Inr (PStr (''Hello, '' @ n))
                                 | _ \<Rightarrow> Inl (OtherException ''TypeError'' ''bad arguments''))\<rparr>"

text \<open>
  The same function with its docstring written on lines of its own: a line feed and
  four spaces before the text, a line feed, a tab and a space after it.
\<close>

definition greet_indented :: py_function where
  "greet_indented = greet\<lparr>fn_doc := Some ([CHR 0x0A] @ ''    Greets a person.''
                                          @ [CHR 0x0A, CHR 0x09] @ '' '')\<rparr>"

text \<open>\<open>def quiet(): ""\<close>, whose docstring is the empty string.\<close>

definition quiet :: py_function where
  "quiet = \<lparr>fn_name = Inr ''quiet'', fn_doc = Some [], has_annotations = True,
            type_hints = Inr [], sig_parameters = Inr [],
            fn_call = (\<lambda>kwargs. Inr PNone)\<rparr>"





text \<open>
  \<open>def row(self, s: str, i: int, x: float, b: bool, l: list, d: dict, o: bytes, u,
  k: int = 0)\<close>: every entry of the table, an annotation outside it, and none.
\<close>

definition row :: py_function where
  "row = \<lparr>fn_name = Inr ''row'', fn_doc = Some ''Build a row.'', has_annotations = True,
          type_hints = Inr [(''s'', T_str), (''i'', T_int), (''x'', T_float), (''b'', T_bool),
                            (''l'', T_list), (''d'', T_dict), (''o'', T_other ''bytes''),
                            (''k'', T_int)],
          sig_parameters = Inr [(''self'', \<lparr>param_default = None\<rparr>),
                                (''s'', \<lparr>param_default = None\<rparr>),
                                (''i'', \<lparr>param_default = None\<rparr>),
                                (''x'', \<lparr>param_default = None\<rparr>),
                                (''b'', \<lparr>param_default = None\<rparr>),
                                (''l'', \<lparr>param_default = None\<rparr>),
                                (''d'', \<lparr>param_default = None\<rparr>),
                                (''o'', \<lparr>param_default = None\<rparr>),
                                (''u'', \<lparr>param_default = None\<rparr>),
                                (''k'', \<lparr>param_default = Some (PInt 0)\<rparr>)],
          fn_call = (\<lambda>kwargs. Inr PNone)\<rparr>"

text \<open>\<open>def connect(host: str = "localhost", port: int = 80)\<close> and \<open>def ping()\<close>.\<close>

definition connect :: py_function where
  "connect = \<lparr>fn_name = Inr ''connect'', fn_doc = None, has_annotations = True,
            type_hints = Inr [(''host'', T_str), (''port'', T_int)],
            sig_parameters = Inr [(''host'', \<lparr>param_default = Some (PStr ''localhost'')\<rparr>),
                                  (''port'', \<lparr>param_default = Some (PInt 80)\<rparr>)],
            fn_call = (\<lambda>kwargs. Inr PNone)\<rparr>"

definition ping :: py_function where
  "ping = \<lparr>fn_name = Inr ''ping'', fn_doc = None, has_annotations = True,
           type_hints = Inr [], sig_parameters = Inr [],
           fn_call = (\<lambda>kwargs. Inr (PStr ''pong''))\<rparr>"

text \<open>
  \<open>functools.partial(ping)\<close>: a callable without \<open>__name__\<close> and without
  \<open>__annotations__\<close>.
\<close>

definition partial_ping :: py_function where
  "partial_ping = \<lparr>fn_name = Inl (OtherException ''AttributeError''
                       ([CHR 0x27] @ ''functools.partial'' @ [CHR 0x27]
                        @ '' object has no attribute '' @ [CHR 0x27] @ ''__name__'' @ [CHR 0x27])),
            fn_doc = Some ''Create a new function with partial application of the given arguments'',
            has_annotations = False, type_hints = Inr [], sig_parameters = Inr [],
            fn_call = (\<lambda>kwargs. Inr (PStr ''pong''))\<rparr>"



text \<open>\<open>def explode(): raise RuntimeError("boom")\<close>, and the tool made from it.\<close>

definition explode :: py_function where
  "explode = \<lparr>fn_name = Inr ''explode'', fn_doc = None, has_annotations = True,
              type_hints = Inr [], sig_parameters = Inr [],
              fn_call = (\<lambda>kwargs. Inl (OtherException ''RuntimeError'' ''boom''))\<rparr>"

definition explode_tool :: tool where
  "explode_tool = \<lparr>tool_name = ''explode'', tool_description = ''Execute explode'',
                    tool_parameters = [(''type'', PStr ''object''), (''properties'', PDict [])],
                    tool_function = Some explode\<rparr>"

text \<open>A tool that only describes a remote capability: no function is bound.\<close>

definition remote_lookup :: tool where
  "remote_lookup = \<lparr>tool_name = ''lookup'', tool_description = ''Remote lookup'',
                     tool_parameters = [(''type'', PStr ''object''), (''properties'', PDict [])],
                     tool_function = None\<rparr>"

text \<open>
  The same tool bound to a function whose body raises a \<open>ValueError\<close> with the text
  \<open>Tool 'lookup' has no function defined\<close>.
\<close>

definition complain :: py_function where
  "complain = \<lparr>fn_name = Inr ''complain'', fn_doc = None, has_annotations = True,
               type_hints = Inr [], sig_parameters = Inr [],
               fn_call = (\<lambda>kwargs. Inl (ValueError (''Tool '' @ [CHR 0x27] @ ''lookup''
                                           @ [CHR 0x27] @ '' has no function defined'')))\<rparr>"

definition bound_lookup :: tool where
  "bound_lookup = remote_lookup\<lparr>tool_function := Some complain\<rparr>"

text \<open>\<open>Agent(name="bot")\<close>, every other field at its default.\<close>

definition bot :: agent where
  "bot = \<lparr>name = ''bot'', model = default_model, system_prompt = None, tools = [],
          memory_enabled = False, max_tokens = default_max_tokens,
          temperature = default_temperature, conversation_history = []\<rparr>"

section \<open>Dictionaries\<close>

lemma map_of_dict_set: "map_of (dict_set d k v) = (map_of d)(k \<mapsto> v)"
  by (induction d k v rule: dict_set.induct) (auto simp: fun_eq_iff)

lemma dict_get_dict_set:
  "dict_get (dict_set d k v) k' = (if k' = k then Some v else dict_get d k')"
  by (simp add: dict_get_def map_of_dict_set)

lemma dict_set_new: "k \<notin> fst ` set d \<Longrightarrow> dict_set d k v = d @ [(k, v)]"
  by (induction d k v rule: dict_set.induct) auto

section \<open>The loop over the parameters\<close>

lemma python_type_to_json_hashable:
  "hashable t \<Longrightarrow> \<exists>j. python_type_to_json t = Inr j"
  by (cases t) simp_all

lemma python_type_to_json_unhashable:
  "\<not> hashable t \<Longrightarrow> \<exists>e. python_type_to_json t = Inl e"
  by (cases t) simp_all

lemma param_loop_returns:
  "hashable_annotations hints ps \<Longrightarrow>
   \<exists>properties'.
     param_loop hints ps properties required =
       Inr (properties',
            required @ map fst (filter (\<lambda>(n, p). n \<noteq> ''self'' \<and> param_default p = None) ps))
     \<and> (\<forall>n. map_of properties' n =
           (if n \<noteq> ''self'' \<and> n \<in> fst ` set ps
            then Some (parameter_schema (projr (python_type_to_json (hints_get hints n))) n)
            else map_of properties n))"
proof (induction ps arbitrary: properties required)
  case Nil
  then show ?case by simp
next
  case (Cons a ps)
  obtain pn p where a: "a = (pn, p)" by (cases a)
  from Cons.prems have rest: "hashable_annotations hints ps"
    by (simp add: hashable_annotations_def)
  show ?case
  proof (cases "pn = ''self''")
    case True
    with Cons.IH [OF rest, of properties required] a show ?thesis by auto
  next
    case False
    with Cons.prems a have "hashable (hints_get hints pn)"
      by (simp add: hashable_annotations_def)
    then obtain jt where j: "python_type_to_json (hints_get hints pn) = Inr jt"
      using python_type_to_json_hashable by blast
    then have pj: "projr (python_type_to_json (hints_get hints pn)) = jt"
      by simp
    let ?props = "dict_set properties pn
                    (parameter_schema (projr (python_type_to_json (hints_get hints pn))) pn)"
    let ?req = "if param_default p = None then required @ [pn] else required"
    from Cons.IH [OF rest, of ?props ?req] obtain properties' where
      r: "param_loop hints ps ?props ?req =
            Inr (properties',
                 ?req @ map fst (filter (\<lambda>(n, p). n \<noteq> ''self'' \<and> param_default p = None) ps))"
      and l: "\<forall>n. map_of properties' n =
           (if n \<noteq> ''self'' \<and> n \<in> fst ` set ps
            then Some (parameter_schema (projr (python_type_to_json (hints_get hints n))) n)
            else map_of ?props n)"
      by blast
    have "param_loop hints (a # ps) properties required = param_loop hints ps ?props ?req"
      using False a j by (simp add: Let_def)
    with r l False a show ?thesis
      by (auto simp: map_of_dict_set pj)
  qed
qed

lemma param_loop_raises:
  "\<not> hashable_annotations hints ps \<Longrightarrow> \<exists>e. param_loop hints ps properties required = Inl e"
proof (induction ps arbitrary: properties required)
  case Nil
  then show ?case by (simp add: hashable_annotations_def)
next
  case (Cons a ps)
  obtain pn p where a: "a = (pn, p)" by (cases a)
  show ?case
  proof (cases "pn = ''self''")
    case True
    with Cons a show ?thesis by (simp add: hashable_annotations_def)
  next
    case False
    show ?thesis
    proof (cases "hashable (hints_get hints pn)")
      case True
      then obtain jt where j: "python_type_to_json (hints_get hints pn) = Inr jt"
        using python_type_to_json_hashable by blast
      from True Cons.prems a have "\<not> hashable_annotations hints ps"
        by (simp add: hashable_annotations_def)
      from Cons.IH [OF this] a False j show ?thesis
        by (simp add: Let_def)
    next
      case False
      then obtain e where "python_type_to_json (hints_get hints pn) = Inl e"
        using python_type_to_json_unhashable by blast
      with a \<open>pn \<noteq> ''self''\<close> show ?thesis by (simp add: Let_def)
    qed
  qed
qed

lemma param_loop_explicit:
  "distinct (map fst ps) \<Longrightarrow> fst ` set properties \<inter> fst ` set ps = {} \<Longrightarrow>
   hashable_annotations hints ps \<Longrightarrow>
   param_loop hints ps properties required =
     Inr (properties @
            map (\<lambda>(n, p). (n, parameter_schema (projr (python_type_to_json (hints_get hints n))) n))
                (filter (\<lambda>(n, p). n \<noteq> ''self'') ps),
          required @ map fst (filter (\<lambda>(n, p). n \<noteq> ''self'' \<and> param_default p = None) ps))"
proof (induction ps arbitrary: properties required)
  case Nil
  then show ?case by simp
next
  case (Cons a ps)
  obtain pn p where a: "a = (pn, p)" by (cases a)
  from Cons.prems have rest: "hashable_annotations hints ps" and d: "distinct (map fst ps)"
    and fresh: "pn \<notin> fst ` set ps" and new: "pn \<notin> fst ` set properties"
    and disj: "fst ` set properties \<inter> fst ` set ps = {}"
    using a by (auto simp: hashable_annotations_def)
  show ?case
  proof (cases "pn = ''self''")
    case True
    with Cons.IH [OF d disj rest, of required] a show ?thesis by simp
  next
    case False
    with Cons.prems a have "hashable (hints_get hints pn)"
      by (simp add: hashable_annotations_def)
    then obtain jt where j: "python_type_to_json (hints_get hints pn) = Inr jt"
      using python_type_to_json_hashable by blast
    then have pj: "projr (python_type_to_json (hints_get hints pn)) = jt"
      by simp
    let ?v = "parameter_schema (projr (python_type_to_json (hints_get hints pn))) pn"
    let ?req = "if param_default p = None then required @ [pn] else required"
    have s: "dict_set properties pn ?v = properties @ [(pn, ?v)]"
      using new by (rule dict_set_new)
    have disj': "fst ` set (properties @ [(pn, ?v)]) \<inter> fst ` set ps = {}"
      using disj fresh by auto
    have "param_loop hints (a # ps) properties required =
            param_loop hints ps (properties @ [(pn, ?v)]) ?req"
      using False a j s by (simp add: Let_def)
    with Cons.IH [OF d disj' rest, of ?req] False a show ?thesis
      by simp
  qed
qed

section \<open>Schema derivation\<close>

lemma derive_parameters_returns:
  assumes "hints_of f = Inr h" and "sig_parameters f = Inr ps" and "hashable_annotations h ps"
  shows "\<exists>properties.
           derive_parameters f =
             Inr ([(''type'', PStr ''object''), (''properties'', PDict properties)] @
                  (let required = map fst (filter (\<lambda>(n, p). n \<noteq> ''self'' \<and> param_default p = None) ps)
                   in if required = [] then [] else [(''required'', PList (map PStr required))]))
           \<and> (\<forall>n. dict_get properties n =
                 (if n \<noteq> ''self'' \<and> n \<in> fst ` set ps
                  then Some (parameter_schema (projr (python_type_to_json (hints_get h n))) n)
                  else None))"
proof -
  from param_loop_returns [OF assms(3), of "[]" "[]"] obtain properties where
    r: "param_loop h ps [] [] =
          Inr (properties, map fst (filter (\<lambda>(n, p). n \<noteq> ''self'' \<and> param_default p = None) ps))"
    and l: "\<forall>n. map_of properties n =
           (if n \<noteq> ''self'' \<and> n \<in> fst ` set ps
            then Some (parameter_schema (projr (python_type_to_json (hints_get h n))) n)
            else None)"
    by auto
  have "derive_parameters f =
             Inr ([(''type'', PStr ''object''), (''properties'', PDict properties)] @
                  (let required = map fst (filter (\<lambda>(n, p). n \<noteq> ''self'' \<and> param_default p = None) ps)
                   in if required = [] then [] else [(''required'', PList (map PStr required))]))"
    by (simp add: derive_parameters_def assms(1,2) r Let_def)
  with l show ?thesis by (auto simp: dict_get_def)
qed

lemma derive_parameters_explicit:
  assumes "hints_of f = Inr h" and "sig_parameters f = Inr ps" and "hashable_annotations h ps"
    and "distinct (map fst ps)"
  shows "derive_parameters f =
           Inr ([(''type'', PStr ''object''),
                 (''properties'',
                    PDict (map (\<lambda>(n, p). (n, parameter_schema
                                               (projr (python_type_to_json (hints_get h n))) n))
                               (filter (\<lambda>(n, p). n \<noteq> ''self'') ps)))] @
                (let required = map fst (filter (\<lambda>(n, p). n \<noteq> ''self'' \<and> param_default p = None) ps)
                 in if required = [] then [] else [(''required'', PList (map PStr required))]))"
proof -
  have "param_loop h ps [] [] =
     Inr ([] @ map (\<lambda>(n, p). (n, parameter_schema (projr (python_type_to_json (hints_get h n))) n))
                (filter (\<lambda>(n, p). n \<noteq> ''self'') ps),
          [] @ map fst (filter (\<lambda>(n, p). n \<noteq> ''self'' \<and> param_default p = None) ps))"
    using assms(4,3) by (intro param_loop_explicit) simp_all
  then show ?thesis
    by (simp add: derive_parameters_def assms(1,2) Let_def)
qed

lemma derive_parameters_raises:
  "hints_of f = Inl e \<Longrightarrow> derive_parameters f = Inl e"
  "hints_of f = Inr h \<Longrightarrow> sig_parameters f = Inl e \<Longrightarrow> derive_parameters f = Inl e"
  "hints_of f = Inr h \<Longrightarrow> sig_parameters f = Inr ps \<Longrightarrow> \<not> hashable_annotations h ps \<Longrightarrow>
     \<exists>e'. derive_parameters f = Inl e'"
proof -
  show "hints_of f = Inl e \<Longrightarrow> derive_parameters f = Inl e"
    by (simp add: derive_parameters_def)
  show "hints_of f = Inr h \<Longrightarrow> sig_parameters f = Inl e \<Longrightarrow> derive_parameters f = Inl e"
    by (simp add: derive_parameters_def)
  assume a: "hints_of f = Inr h" "sig_parameters f = Inr ps" "\<not> hashable_annotations h ps"
  from param_loop_raises [OF a(3), of "[]" "[]"] obtain e' where "param_loop h ps [] [] = Inl e'"
    by blast
  with a show "\<exists>e'. derive_parameters f = Inl e'"
    by (simp add: derive_parameters_def)
qed

lemma from_function_returns:
  "fn_name f = Inr nm \<Longrightarrow> derive_parameters f = Inr parameters \<Longrightarrow>
   from_function f =
     Inr \<lparr>tool_name = nm,
          tool_description = strip (case fn_doc f of
                                      None \<Rightarrow> ''Execute '' @ nm
                                    | Some d \<Rightarrow> if d = [] then ''Execute '' @ nm else d),
          tool_parameters = parameters, tool_function = Some f\<rparr>"
  by (simp add: from_function_def Let_def)

lemma from_function_raises:
  "fn_name f = Inl e \<Longrightarrow> from_function f = Inl e"
  "fn_name f = Inr nm \<Longrightarrow> derive_parameters f = Inl e \<Longrightarrow> from_function f = Inl e"
  by (simp_all add: from_function_def Let_def)

text \<open>
  C7. Take a callable on which \<open>__name__\<close>, \<open>get_type_hints\<close> and
  \<open>inspect.signature\<close> succeed and whose annotations can be hashed. When every
  parameter has a default value, \<open>from_function\<close> returns a tool whose schema has
  exactly the keys \<open>type\<close> and \<open>properties\<close>: the key \<open>required\<close> is not there at
  all. For a callable without parameters the schema is \<open>{type: object, properties: {}}\<close>.
\<close>

theorem C7_required_omitted:
  "(fn_name f = Inr nm \<and> hints_of f = Inr h \<and> sig_parameters f = Inr ps
      \<and> hashable_annotations h ps \<and> (\<forall>(n, p) \<in> set ps. param_default p \<noteq> None) \<longrightarrow>
    (\<exists>t. from_function f = Inr t
         \<and> map fst (tool_parameters t) = [''type'', ''properties'']
         \<and> dict_get (tool_parameters t) ''required'' = None))
   \<and> (fn_name g = Inr nm' \<and> hints_of g = Inr h' \<and> sig_parameters g = Inr [] \<longrightarrow>
    (\<exists>t. from_function g = Inr t
         \<and> tool_parameters t = [(''type'', PStr ''object''), (''properties'', PDict [])]))"
proof (intro conjI impI)
  assume a: "fn_name f = Inr nm \<and> hints_of f = Inr h \<and> sig_parameters f = Inr ps
      \<and> hashable_annotations h ps \<and> (\<forall>(n, p) \<in> set ps. param_default p \<noteq> None)"
  then have e: "filter (\<lambda>(n, p). n \<noteq> ''self'' \<and> param_default p = None) ps = []"
    by (auto simp: filter_empty_conv)
  from a derive_parameters_returns [of f h ps] obtain properties where
    "derive_parameters f = Inr [(''type'', PStr ''object''), (''properties'', PDict properties)]"
    by (auto simp: e)
  with a from_function_returns [of f nm]
  show "\<exists>t. from_function f = Inr t
         \<and> map fst (tool_parameters t) = [''type'', ''properties'']
         \<and> dict_get (tool_parameters t) ''required'' = None"
    by (simp add: dict_get_def)
next
  assume a: "fn_name g = Inr nm' \<and> hints_of g = Inr h' \<and> sig_parameters g = Inr []"
  then have "derive_parameters g = Inr [(''type'', PStr ''object''), (''properties'', PDict [])]"
    by (simp add: derive_parameters_def Let_def)
  with a from_function_returns [of g nm']
  show "\<exists>t. from_function g = Inr t
         \<and> tool_parameters t = [(''type'', PStr ''object''), (''properties'', PDict [])]"
    by simp
qed

theorem C7_required_omitted_witness:
  "(\<exists>t. from_function connect = Inr t
         \<and> map fst (tool_parameters t) = [''type'', ''properties'']
         \<and> dict_get (tool_parameters t) ''required'' = None)
   \<and> (\<exists>t. from_function ping = Inr t
         \<and> tool_parameters t = [(''type'', PStr ''object''), (''properties'', PDict [])])"
proof -
  have c: "fn_name connect = Inr ''connect''"
    "hints_of connect = Inr [(''host'', T_str), (''port'', T_int)]"
    "sig_parameters connect = Inr [(''host'', \<lparr>param_default = Some (PStr ''localhost'')\<rparr>),
                                   (''port'', \<lparr>param_default = Some (PInt 80)\<rparr>)]"
    by (simp_all add: connect_def hints_of_def)
  have h: "hashable_annotations [(''host'', T_str), (''port'', T_int)]
             [(''host'', \<lparr>param_default = Some (PStr ''localhost'')\<rparr>),
              (''port'', \<lparr>param_default = Some (PInt 80)\<rparr>)]"
    by (simp add: hashable_annotations_def hints_get_def)
  have p: "fn_name ping = Inr ''ping''" "hints_of ping = Inr []" "sig_parameters ping = Inr []"
    by (simp_all add: ping_def hints_of_def)
  show ?thesis
    using C7_required_omitted [of connect "''connect''" "[(''host'', T_str), (''port'', T_int)]"
             "[(''host'', \<lparr>param_default = Some (PStr ''localhost'')\<rparr>),
               (''port'', \<lparr>param_default = Some (PInt 80)\<rparr>)]" ping "''ping''" "[]"]
          c h p
    by simp
qed







section \<open>Name and description\<close>

lemma dropWhile_all: "list_all P xs \<Longrightarrow> dropWhile P (xs @ ys) = dropWhile P ys"
  by (induction xs) auto

lemma strip_surrounded:
  assumes "list_all isspace l" and "list_all isspace r"
    and "core = [] \<or> (\<not> isspace (hd core) \<and> \<not> isspace (last core))"
  shows "strip (l @ core @ r) = core"
proof (cases "core = []")
  case True
  from assms(1,2) have a: "\<forall>x\<in>set (l @ r). isspace x"
    by (auto simp: list_all_iff)
  have d: "dropWhile isspace (l @ r) = []"
    unfolding dropWhile_eq_Nil_conv using a .
  show ?thesis
    by (simp only: True strip_def append_Nil d dropWhile.simps rev.simps)
next
  case False
  with assms(3) have h: "\<not> isspace (hd core)" and t: "\<not> isspace (last core)" by auto
  have "dropWhile isspace (l @ core @ r) = dropWhile isspace (core @ r)"
    using assms(1) by (rule dropWhile_all)
  also have "\<dots> = core @ r"
    using False h by (cases core) auto
  finally have front: "dropWhile isspace (l @ core @ r) = core @ r" .
  have "list_all isspace (rev r)" using assms(2) by (simp add: list_all_iff)
  then have "dropWhile isspace (rev r @ rev core) = dropWhile isspace (rev core)"
    by (rule dropWhile_all)
  also have "\<dots> = rev core"
    using False t by (simp add: dropWhile_eq_self_iff hd_rev)
  finally show ?thesis by (simp add: strip_def front)
qed

lemma strip_Execute:
  "n \<noteq> [] \<Longrightarrow> \<not> isspace (last n) \<Longrightarrow> strip (''Execute '' @ n) = ''Execute '' @ n"
  using strip_surrounded [of "[]" "[]" "''Execute '' @ n"]
  by (simp add: isspace_def whitespace_def)

text \<open>
  C5 (as amended). For every callable named \<open>greet\<close> with the docstring
  \<open>Greets a person.\<close> and the single parameter \<open>name\<close>, annotated \<open>str\<close> and without
  a default, \<open>from_function\<close> returns the tool with name \<open>greet\<close>, description
  \<open>Greets a person.\<close> and parameters \<open>{type: object, properties: {name: {type:
  string, description: "Parameter: name"}}, required: [name]}\<close>, bound to the
  callable. In general, for a callable with a name and a derivable schema, the
  description is the docstring without its leading and trailing whitespace when the
  docstring is present and not empty, and it is \<open>Execute <name>\<close> when the docstring
  is absent or is the empty string (the fallback goes through \<open>strip\<close> as well, which
  leaves it alone for a name that does not end in whitespace).
\<close>

theorem C5_greet_schema:
  "(fn_name f = Inr ''greet'' \<and> fn_doc f = Some ''Greets a person.''
      \<and> hints_of f = Inr h \<and> map_of h ''name'' = Some T_str
      \<and> sig_parameters f = Inr [(''name'', p)] \<and> param_default p = None \<longrightarrow>
    from_function f =
      Inr \<lparr>tool_name = ''greet'', tool_description = ''Greets a person.'',
           tool_parameters =
             [(''type'', PStr ''object''),
              (''properties'', PDict [(''name'', PDict [(''type'', PStr ''string''),
                                                        (''description'', PStr ''Parameter: name'')])]),
              (''required'', PList [PStr ''name''])],
           tool_function = Some f\<rparr>)
   \<and> (fn_name g = Inr nm \<and> derive_parameters g = Inr parameters
      \<and> fn_doc g = Some (l @ core @ r) \<and> l @ core @ r \<noteq> []
      \<and> list_all isspace l \<and> list_all isspace r
      \<and> (core = [] \<or> (\<not> isspace (hd core) \<and> \<not> isspace (last core))) \<longrightarrow>
    from_function g =
      Inr \<lparr>tool_name = nm, tool_description = core,
           tool_parameters = parameters, tool_function = Some g\<rparr>)
   \<and> (fn_name g = Inr nm \<and> derive_parameters g = Inr parameters
      \<and> (fn_doc g = None \<or> fn_doc g = Some []) \<longrightarrow>
    from_function g =
      Inr \<lparr>tool_name = nm, tool_description = strip (''Execute '' @ nm),
           tool_parameters = parameters, tool_function = Some g\<rparr>)
   \<and> (nm \<noteq> [] \<and> \<not> isspace (last nm) \<longrightarrow> strip (''Execute '' @ nm) = ''Execute '' @ nm)"
proof (intro conjI impI)
  assume a: "fn_name f = Inr ''greet'' \<and> fn_doc f = Some ''Greets a person.''
      \<and> hints_of f = Inr h \<and> map_of h ''name'' = Some T_str
      \<and> sig_parameters f = Inr [(''name'', p)] \<and> param_default p = None"
  have s: "strip ''Greets a person.'' = ''Greets a person.''"
    by (simp add: strip_def isspace_def whitespace_def)
  from a have d: "derive_parameters f =
         Inr [(''type'', PStr ''object''),
          (''properties'', PDict [(''name'', PDict [(''type'', PStr ''string''),
                                                    (''description'', PStr ''Parameter: name'')])]),
          (''required'', PList [PStr ''name''])]"
    by (simp add: derive_parameters_def hints_get_def parameter_schema_def Let_def)
  from a show "from_function f =
      Inr \<lparr>tool_name = ''greet'', tool_description = ''Greets a person.'',
           tool_parameters =
             [(''type'', PStr ''object''),
              (''properties'', PDict [(''name'', PDict [(''type'', PStr ''string''),
                                                        (''description'', PStr ''Parameter: name'')])]),
              (''required'', PList [PStr ''name''])],
           tool_function = Some f\<rparr>"
    by (simp add: from_function_def Let_def d s)
next
  assume a: "fn_name g = Inr nm \<and> derive_parameters g = Inr parameters
      \<and> fn_doc g = Some (l @ core @ r) \<and> l @ core @ r \<noteq> []
      \<and> list_all isspace l \<and> list_all isspace r
      \<and> (core = [] \<or> (\<not> isspace (hd core) \<and> \<not> isspace (last core)))"
  then have "strip (l @ core @ r) = core"
    by (intro strip_surrounded) simp_all
  with a from_function_returns [of g nm parameters]
  show "from_function g =
      Inr \<lparr>tool_name = nm, tool_description = core,
           tool_parameters = parameters, tool_function = Some g\<rparr>"
    by auto
next
  assume a: "fn_name g = Inr nm \<and> derive_parameters g = Inr parameters
      \<and> (fn_doc g = None \<or> fn_doc g = Some [])"
  with from_function_returns [of g nm parameters]
  show "from_function g =
      Inr \<lparr>tool_name = nm, tool_description = strip (''Execute '' @ nm),
           tool_parameters = parameters, tool_function = Some g\<rparr>"
    by auto
next
  assume "nm \<noteq> [] \<and> \<not> isspace (last nm)"
  then show "strip (''Execute '' @ nm) = ''Execute '' @ nm"
    using strip_Execute [of nm] by simp
qed

theorem C5_greet_schema_witness:
  "from_function greet =
      Inr \<lparr>tool_name = ''greet'', tool_description = ''Greets a person.'',
           tool_parameters =
             [(''type'', PStr ''object''),
              (''properties'', PDict [(''name'', PDict [(''type'', PStr ''string''),
                                                        (''description'', PStr ''Parameter: name'')])]),
              (''required'', PList [PStr ''name''])],
           tool_function = Some greet\<rparr>
   \<and> from_function greet_indented =
      Inr \<lparr>tool_name = ''greet'', tool_description = ''Greets a person.'',
           tool_parameters =
             [(''type'', PStr ''object''),
              (''properties'', PDict [(''name'', PDict [(''type'', PStr ''string''),
                                                        (''description'', PStr ''Parameter: name'')])]),
              (''required'', PList [PStr ''name''])],
           tool_function = Some greet_indented\<rparr>
   \<and> from_function ping =
      Inr \<lparr>tool_name = ''ping'', tool_description = ''Execute ping'',
           tool_parameters = [(''type'', PStr ''object''), (''properties'', PDict [])],
           tool_function = Some ping\<rparr>"
proof -
  have greet_facts:
    "fn_name greet = Inr ''greet'' \<and> fn_doc greet = Some ''Greets a person.''
      \<and> hints_of greet = Inr [(''name'', T_str), (''return'', T_str)]
      \<and> map_of [(''name'', T_str), (''return'', T_str)] ''name'' = Some T_str
      \<and> sig_parameters greet = Inr [(''name'', \<lparr>param_default = None\<rparr>)]
      \<and> param_default \<lparr>param_default = None\<rparr> = None"
    by (simp add: greet_def hints_of_def)
  have indented_facts:
    "fn_name greet_indented = Inr ''greet''
      \<and> derive_parameters greet_indented =
           Inr [(''type'', PStr ''object''),
              (''properties'', PDict [(''name'', PDict [(''type'', PStr ''string''),
                                                        (''description'', PStr ''Parameter: name'')])]),
              (''required'', PList [PStr ''name''])]
      \<and> fn_doc greet_indented =
           Some (([CHR 0x0A] @ ''    '') @ ''Greets a person.'' @ ([CHR 0x0A, CHR 0x09] @ '' ''))
      \<and> ([CHR 0x0A] @ ''    '') @ ''Greets a person.'' @ ([CHR 0x0A, CHR 0x09] @ '' '') \<noteq> []
      \<and> list_all isspace ([CHR 0x0A] @ ''    '')
      \<and> list_all isspace ([CHR 0x0A, CHR 0x09] @ '' '')
      \<and> (''Greets a person.'' = [] \<or>
           (\<not> isspace (hd ''Greets a person.'') \<and> \<not> isspace (last ''Greets a person.'')))"
    by (simp add: greet_indented_def greet_def derive_parameters_def hints_of_def hints_get_def
                  parameter_schema_def Let_def isspace_def whitespace_def)
  have ping_facts:
    "fn_name ping = Inr ''ping'' \<and> derive_parameters ping =
        Inr [(''type'', PStr ''object''), (''properties'', PDict [])]
     \<and> (fn_doc ping = None \<or> fn_doc ping = Some [])
     \<and> ''ping'' \<noteq> [] \<and> \<not> isspace (last ''ping'')"
    by (simp add: ping_def derive_parameters_def hints_of_def Let_def isspace_def whitespace_def)
  have one: "from_function greet =
      Inr \<lparr>tool_name = ''greet'', tool_description = ''Greets a person.'',
           tool_parameters =
             [(''type'', PStr ''object''),
              (''properties'', PDict [(''name'', PDict [(''type'', PStr ''string''),
                                                        (''description'', PStr ''Parameter: name'')])]),
              (''required'', PList [PStr ''name''])],
           tool_function = Some greet\<rparr>"
    using C5_greet_schema [of greet "[(''name'', T_str), (''return'', T_str)]"
            "\<lparr>param_default = None\<rparr>"] greet_facts
    by blast
  have two: "from_function greet_indented =
      Inr \<lparr>tool_name = ''greet'', tool_description = ''Greets a person.'',
           tool_parameters =
             [(''type'', PStr ''object''),
              (''properties'', PDict [(''name'', PDict [(''type'', PStr ''string''),
                                                        (''description'', PStr ''Parameter: name'')])]),
              (''required'', PList [PStr ''name''])],
           tool_function = Some greet_indented\<rparr>"
    using C5_greet_schema [of _ _ _ greet_indented "''greet''" _
            "[CHR 0x0A] @ ''    ''" "''Greets a person.''" "[CHR 0x0A, CHR 0x09] @ '' ''"]
          indented_facts
    by blast
  have three: "from_function ping =
      Inr \<lparr>tool_name = ''ping'', tool_description = ''Execute ping'',
           tool_parameters = [(''type'', PStr ''object''), (''properties'', PDict [])],
           tool_function = Some ping\<rparr>"
    using C5_greet_schema [of _ _ _ ping "''ping''"
            "[(''type'', PStr ''object''), (''properties'', PDict [])]"]
          ping_facts
    by auto
  from one two three show ?thesis by blast
qed

text \<open>
  \<open>def quiet(): ""\<close> has a docstring, the empty string, whose trimmed form is the
  empty string; the description of the tool made from it is \<open>Execute quiet\<close>.
\<close>

theorem C5_empty_docstring_counterexample:
  "fn_doc quiet = Some []
   \<and> strip [] = []
   \<and> from_function quiet =
       Inr \<lparr>tool_name = ''quiet'', tool_description = ''Execute quiet'',
            tool_parameters = [(''type'', PStr ''object''), (''properties'', PDict [])],
            tool_function = Some quiet\<rparr>"
  by (simp add: quiet_def from_function_def derive_parameters_def hints_of_def Let_def
                strip_def isspace_def whitespace_def)

section \<open>Serialization and invocation of a tool\<close>

lemma kind_table:
  "hashable (hints_get h n) \<Longrightarrow>
   projr (python_type_to_json (hints_get h n)) =
     (case map_of h n of
        Some T_int \<Rightarrow> ''integer'' | Some T_float \<Rightarrow> ''number'' | Some T_bool \<Rightarrow> ''boolean''
      | Some T_list \<Rightarrow> ''array'' | Some T_dict \<Rightarrow> ''object'' | _ \<Rightarrow> ''string'')"
  by (auto simp: hints_get_def split: option.splits py_type.splits)

lemma hashable_annotations_member:
  "hashable_annotations h ps \<Longrightarrow> (n, p) \<in> set ps \<Longrightarrow> n \<noteq> ''self'' \<Longrightarrow>
   hashable (hints_get h n)"
  by (auto simp: hashable_annotations_def list_all_iff)

text \<open>
  C4 (as amended). Take a callable \<open>f\<close> on which \<open>__name__\<close>, \<open>get_type_hints\<close> and
  \<open>inspect.signature\<close> succeed and whose annotations can be hashed. Then
  \<open>from_function f\<close> returns a tool \<open>t\<close>, and \<open>to_dict\<close> of \<open>t\<close> is \<open>{type: function,
  function: {name, description, parameters}}\<close> with the name of \<open>f\<close>, the description
  derived from its docstring, and under \<open>parameters\<close> exactly the schema that the
  derivation produces for \<open>f\<close>: one entry per parameter other than \<open>self\<close>, in
  declaration order, with the kind that the table gives for its annotation and
  \<open>string\<close> otherwise, and the list of the parameters
  without a default under \<open>required\<close> when there is one. A call of \<open>to_dict\<close> leaves
  the tool object as it was, a second call returns the same dictionary, the dictionary
  is built from the name, the description and the parameters of the tool alone, and
  it is the same whatever function is bound.
\<close>

theorem C4_to_dict_round_trip:
  "(fn_name f = Inr nm \<and> hints_of f = Inr h \<and> sig_parameters f = Inr ps
      \<and> distinct (map fst ps) \<and> hashable_annotations h ps \<longrightarrow>
    (\<exists>t. from_function f = Inr t
        \<and> derive_parameters f = Inr (tool_parameters t)
        \<and> to_dict t =
            [(''type'', PStr ''function''),
             (''function'',
                PDict [(''name'', PStr nm),
                       (''description'',
                          PStr (strip (case fn_doc f of
                                         None \<Rightarrow> ''Execute '' @ nm
                                       | Some d \<Rightarrow> if d = [] then ''Execute '' @ nm else d))),
                       (''parameters'',
                          PDict ([(''type'', PStr ''object''),
                                  (''properties'',
                                     PDict (map (\<lambda>(n, p).
                                               (n, PDict [(''type'',
                                                             PStr (case map_of h n of
                                                                     Some T_int \<Rightarrow> ''integer''
                                                                   | Some T_float \<Rightarrow> ''number''
                                                                   | Some T_bool \<Rightarrow> ''boolean''
                                                                   | Some T_list \<Rightarrow> ''array''
                                                                   | Some T_dict \<Rightarrow> ''object''
                                                                   | _ \<Rightarrow> ''string'')),
                                                          (''description'', PStr (''Parameter: '' @ n))]))
                                            (filter (\<lambda>(n, p). n \<noteq> ''self'') ps)))] @
                                 (let required = map fst (filter (\<lambda>(n, p). n \<noteq> ''self'' \<and> param_default p = None) ps)
                                  in if required = [] then []
                                     else [(''required'', PList (map PStr required))])))])]))
   \<and> snd (to_dict_call u) = u
   \<and> fst (to_dict_call (snd (to_dict_call u))) = fst (to_dict_call u)
   \<and> fst (to_dict_call u) =
       [(''type'', PStr ''function''),
        (''function'', PDict [(''name'', PStr (tool_name u)),
                              (''description'', PStr (tool_description u)),
                              (''parameters'', PDict (tool_parameters u))])]
   \<and> to_dict (u\<lparr>tool_function := b\<rparr>) = to_dict u"
proof (intro conjI impI)
  assume a: "fn_name f = Inr nm \<and> hints_of f = Inr h \<and> sig_parameters f = Inr ps
      \<and> distinct (map fst ps) \<and> hashable_annotations h ps"
  have kinds: "map (\<lambda>(n, p). (n, parameter_schema
                                     (projr (python_type_to_json (hints_get h n))) n))
                   (filter (\<lambda>(n, p). n \<noteq> ''self'') ps) =
               map (\<lambda>(n, p).
                      (n, PDict [(''type'',
                                    PStr (case map_of h n of
                                            Some T_int \<Rightarrow> ''integer''
                                          | Some T_float \<Rightarrow> ''number''
                                          | Some T_bool \<Rightarrow> ''boolean''
                                          | Some T_list \<Rightarrow> ''array''
                                          | Some T_dict \<Rightarrow> ''object''
                                          | _ \<Rightarrow> ''string'')),
                                 (''description'', PStr (''Parameter: '' @ n))]))
                   (filter (\<lambda>(n, p). n \<noteq> ''self'') ps)"
  proof (rule map_cong [OF refl])
    fix x
    assume x: "x \<in> set (filter (\<lambda>(n, p). n \<noteq> ''self'') ps)"
    obtain n p where np: "x = (n, p)" by (cases x)
    with x a have "hashable (hints_get h n)"
      by (auto intro: hashable_annotations_member)
    from kind_table [OF this] np
    show "(case x of (n, p) \<Rightarrow> (n, parameter_schema
                                     (projr (python_type_to_json (hints_get h n))) n)) =
          (case x of (n, p) \<Rightarrow>
                      (n, PDict [(''type'',
                                    PStr (case map_of h n of
                                            Some T_int \<Rightarrow> ''integer''
                                          | Some T_float \<Rightarrow> ''number''
                                          | Some T_bool \<Rightarrow> ''boolean''
                                          | Some T_list \<Rightarrow> ''array''
                                          | Some T_dict \<Rightarrow> ''object''
                                          | _ \<Rightarrow> ''string'')),
                                 (''description'', PStr (''Parameter: '' @ n))]))"
      by (simp add: parameter_schema_def)
  qed
  from a have d: "derive_parameters f =
           Inr ([(''type'', PStr ''object''),
                 (''properties'',
                    PDict (map (\<lambda>(n, p). (n, parameter_schema
                                               (projr (python_type_to_json (hints_get h n))) n))
                               (filter (\<lambda>(n, p). n \<noteq> ''self'') ps)))] @
                (let required = map fst (filter (\<lambda>(n, p). n \<noteq> ''self'' \<and> param_default p = None) ps)
                 in if required = [] then [] else [(''required'', PList (map PStr required))]))"
    by (intro derive_parameters_explicit) simp_all
  from a have n: "fn_name f = Inr nm" by simp
  show "\<exists>t. from_function f = Inr t
        \<and> derive_parameters f = Inr (tool_parameters t)
        \<and> to_dict t =
            [(''type'', PStr ''function''),
             (''function'',
                PDict [(''name'', PStr nm),
                       (''description'',
                          PStr (strip (case fn_doc f of
                                         None \<Rightarrow> ''Execute '' @ nm
                                       | Some d \<Rightarrow> if d = [] then ''Execute '' @ nm else d))),
                       (''parameters'',
                          PDict ([(''type'', PStr ''object''),
                                  (''properties'',
                                     PDict (map (\<lambda>(n, p).
                                               (n, PDict [(''type'',
                                                             PStr (case map_of h n of
                                                                     Some T_int \<Rightarrow> ''integer''
                                                                   | Some T_float \<Rightarrow> ''number''
                                                                   | Some T_bool \<Rightarrow> ''boolean''
                                                                   | Some T_list \<Rightarrow> ''array''
                                                                   | Some T_dict \<Rightarrow> ''object''
                                                                   | _ \<Rightarrow> ''string'')),
                                                          (''description'', PStr (''Parameter: '' @ n))]))
                                            (filter (\<lambda>(n, p). n \<noteq> ''self'') ps)))] @
                                 (let required = map fst (filter (\<lambda>(n, p). n \<noteq> ''self'' \<and> param_default p = None) ps)
                                  in if required = [] then []
                                     else [(''required'', PList (map PStr required))])))])]"
    using from_function_returns [OF n d] d
    by (simp only: kinds [symmetric]) (simp add: to_dict_def)
qed (simp_all add: to_dict_call_def to_dict_def)

theorem C4_to_dict_round_trip_witness:
  "\<exists>t. from_function row = Inr t
      \<and> to_dict t =
          [(''type'', PStr ''function''),
           (''function'',
              PDict [(''name'', PStr ''row''),
                     (''description'', PStr ''Build a row.''),
                     (''parameters'',
                        PDict [(''type'', PStr ''object''),
                               (''properties'',
                                  PDict [
                     (''s'', PDict [(''type'', PStr ''string''), (''description'', PStr ''Parameter: s'')]),
                     (''i'', PDict [(''type'', PStr ''integer''), (''description'', PStr ''Parameter: i'')]),
                     (''x'', PDict [(''type'', PStr ''number''), (''description'', PStr ''Parameter: x'')]),
                     (''b'', PDict [(''type'', PStr ''boolean''), (''description'', PStr ''Parameter: b'')]),
                     (''l'', PDict [(''type'', PStr ''array''), (''description'', PStr ''Parameter: l'')]),
                     (''d'', PDict [(''type'', PStr ''object''), (''description'', PStr ''Parameter: d'')]),
                     (''o'', PDict [(''type'', PStr ''string''), (''description'', PStr ''Parameter: o'')]),
                     (''u'', PDict [(''type'', PStr ''string''), (''description'', PStr ''Parameter: u'')]),
                     (''k'', PDict [(''type'', PStr ''integer''),
                           (''description'', PStr ''Parameter: k'')])]),
                               (''required'', PList [PStr ''s'', PStr ''i'', PStr ''x'', PStr ''b'', PStr ''l'', PStr ''d'', PStr ''o'', PStr ''u''])])])]"
proof -
  have r: "fn_name row = Inr ''row'' \<and> fn_doc row = Some ''Build a row.''
      \<and> hints_of row = Inr [(''s'', T_str),
            (''i'', T_int),
            (''x'', T_float),
            (''b'', T_bool),
            (''l'', T_list),
            (''d'', T_dict),
            (''o'', T_other ''bytes''),
            (''k'', T_int)]
      \<and> sig_parameters row = Inr [(''self'', \<lparr>param_default = None\<rparr>),
            (''s'', \<lparr>param_default = None\<rparr>),
            (''i'', \<lparr>param_default = None\<rparr>),
            (''x'', \<lparr>param_default = None\<rparr>),
            (''b'', \<lparr>param_default = None\<rparr>),
            (''l'', \<lparr>param_default = None\<rparr>),
            (''d'', \<lparr>param_default = None\<rparr>),
            (''o'', \<lparr>param_default = None\<rparr>),
            (''u'', \<lparr>param_default = None\<rparr>),
            (''k'', \<lparr>param_default = Some (PInt 0)\<rparr>)]"
    by (simp add: row_def hints_of_def)
  have h: "distinct (map fst [(''self'', \<lparr>param_default = None\<rparr>),
        (''s'', \<lparr>param_default = None\<rparr>),
        (''i'', \<lparr>param_default = None\<rparr>),
        (''x'', \<lparr>param_default = None\<rparr>),
        (''b'', \<lparr>param_default = None\<rparr>),
        (''l'', \<lparr>param_default = None\<rparr>),
        (''d'', \<lparr>param_default = None\<rparr>),
        (''o'', \<lparr>param_default = None\<rparr>),
        (''u'', \<lparr>param_default = None\<rparr>),
        (''k'', \<lparr>param_default = Some (PInt 0)\<rparr>)])
      \<and> hashable_annotations [(''s'', T_str),
            (''i'', T_int),
            (''x'', T_float),
            (''b'', T_bool),
            (''l'', T_list),
            (''d'', T_dict),
            (''o'', T_other ''bytes''),
            (''k'', T_int)]
            [(''self'', \<lparr>param_default = None\<rparr>),
                  (''s'', \<lparr>param_default = None\<rparr>),
                  (''i'', \<lparr>param_default = None\<rparr>),
                  (''x'', \<lparr>param_default = None\<rparr>),
                  (''b'', \<lparr>param_default = None\<rparr>),
                  (''l'', \<lparr>param_default = None\<rparr>),
                  (''d'', \<lparr>param_default = None\<rparr>),
                  (''o'', \<lparr>param_default = None\<rparr>),
                  (''u'', \<lparr>param_default = None\<rparr>),
                  (''k'', \<lparr>param_default = Some (PInt 0)\<rparr>)]"
    by (simp add: hashable_annotations_def hints_get_def)
  have s: "strip ''Build a row.'' = ''Build a row.''"
    by (simp add: strip_def isspace_def whitespace_def)
  from C4_to_dict_round_trip [of row "''row''" "[(''s'', T_str),
        (''i'', T_int),
        (''x'', T_float),
        (''b'', T_bool),
        (''l'', T_list),
        (''d'', T_dict),
        (''o'', T_other ''bytes''),
        (''k'', T_int)]"
         "[(''self'', \<lparr>param_default = None\<rparr>),
               (''s'', \<lparr>param_default = None\<rparr>),
               (''i'', \<lparr>param_default = None\<rparr>),
               (''x'', \<lparr>param_default = None\<rparr>),
               (''b'', \<lparr>param_default = None\<rparr>),
               (''l'', \<lparr>param_default = None\<rparr>),
               (''d'', \<lparr>param_default = None\<rparr>),
               (''o'', \<lparr>param_default = None\<rparr>),
               (''u'', \<lparr>param_default = None\<rparr>),
               (''k'', \<lparr>param_default = Some (PInt 0)\<rparr>)]"] r h
  obtain t where t: "from_function row = Inr t"
    and d: "to_dict t =
            [(''type'', PStr ''function''),
             (''function'',
                PDict [(''name'', PStr ''row''),
                       (''description'',
                          PStr (strip (case fn_doc row of
                                         None \<Rightarrow> ''Execute '' @ ''row''
                                       | Some d \<Rightarrow> if d = [] then ''Execute '' @ ''row'' else d))),
                       (''parameters'',
                          PDict ([(''type'', PStr ''object''),
                                  (''properties'',
                                     PDict (map (\<lambda>(n, p).
                                               (n, PDict [(''type'',
                                                             PStr (case map_of [(''s'', T_str),
                                                                   (''i'', T_int),
                                                                   (''x'', T_float),
                                                                   (''b'', T_bool),
                                                                   (''l'', T_list),
                                                                   (''d'', T_dict),
                                                                   (''o'', T_other ''bytes''),
                                                                   (''k'', T_int)] n of
                                                                     Some T_int \<Rightarrow> ''integer''
                                                                   | Some T_float \<Rightarrow> ''number''
                                                                   | Some T_bool \<Rightarrow> ''boolean''
                                                                   | Some T_list \<Rightarrow> ''array''
                                                                   | Some T_dict \<Rightarrow> ''object''
                                                                   | _ \<Rightarrow> ''string'')),
                                                          (''description'', PStr (''Parameter: '' @ n))]))
                                            (filter (\<lambda>(n, p). n \<noteq> ''self'') [(''self'', \<lparr>param_default = None\<rparr>),
                                                  (''s'', \<lparr>param_default = None\<rparr>),
                                                  (''i'', \<lparr>param_default = None\<rparr>),
                                                  (''x'', \<lparr>param_default = None\<rparr>),
                                                  (''b'', \<lparr>param_default = None\<rparr>),
                                                  (''l'', \<lparr>param_default = None\<rparr>),
                                                  (''d'', \<lparr>param_default = None\<rparr>),
                                                  (''o'', \<lparr>param_default = None\<rparr>),
                                                  (''u'', \<lparr>param_default = None\<rparr>),
                                                  (''k'', \<lparr>param_default = Some (PInt 0)\<rparr>)])))] @
                                 (let required = map fst (filter (\<lambda>(n, p). n \<noteq> ''self'' \<and> param_default p = None) [(''self'', \<lparr>param_default = None\<rparr>),
                                       (''s'', \<lparr>param_default = None\<rparr>),
                                       (''i'', \<lparr>param_default = None\<rparr>),
                                       (''x'', \<lparr>param_default = None\<rparr>),
                                       (''b'', \<lparr>param_default = None\<rparr>),
                                       (''l'', \<lparr>param_default = None\<rparr>),
                                       (''d'', \<lparr>param_default = None\<rparr>),
                                       (''o'', \<lparr>param_default = None\<rparr>),
                                       (''u'', \<lparr>param_default = None\<rparr>),
                                       (''k'', \<lparr>param_default = Some (PInt 0)\<rparr>)])
                                  in if required = [] then []
                                     else [(''required'', PList (map PStr required))])))])]"
    by blast
  from d r s have "to_dict t =
          [(''type'', PStr ''function''),
           (''function'',
              PDict [(''name'', PStr ''row''),
                     (''description'', PStr ''Build a row.''),
                     (''parameters'',
                        PDict [(''type'', PStr ''object''),
                               (''properties'',
                                  PDict [
                     (''s'', PDict [(''type'', PStr ''string''), (''description'', PStr ''Parameter: s'')]),
                     (''i'', PDict [(''type'', PStr ''integer''), (''description'', PStr ''Parameter: i'')]),
                     (''x'', PDict [(''type'', PStr ''number''), (''description'', PStr ''Parameter: x'')]),
                     (''b'', PDict [(''type'', PStr ''boolean''), (''description'', PStr ''Parameter: b'')]),
                     (''l'', PDict [(''type'', PStr ''array''), (''description'', PStr ''Parameter: l'')]),
                     (''d'', PDict [(''type'', PStr ''object''), (''description'', PStr ''Parameter: d'')]),
                     (''o'', PDict [(''type'', PStr ''string''), (''description'', PStr ''Parameter: o'')]),
                     (''u'', PDict [(''type'', PStr ''string''), (''description'', PStr ''Parameter: u'')]),
                     (''k'', PDict [(''type'', PStr ''integer''),
                           (''description'', PStr ''Parameter: k'')])]),
                               (''required'', PList [PStr ''s'', PStr ''i'', PStr ''x'', PStr ''b'', PStr ''l'', PStr ''d'', PStr ''o'', PStr ''u''])])])]"
    by simp
  with t show ?thesis by blast
qed

text \<open>
  \<open>functools.partial(ping)\<close> is a callable without \<open>__name__\<close>: \<open>from_function\<close>
  raises the \<open>AttributeError\<close>, and there is no tool to serialize.
\<close>

theorem C4_no_name_counterexample:
  "from_function partial_ping =
     Inl (OtherException ''AttributeError''
            ([CHR 0x27] @ ''functools.partial'' @ [CHR 0x27]
             @ '' object has no attribute '' @ [CHR 0x27] @ ''__name__'' @ [CHR 0x27]))"
  by (simp add: partial_ping_def from_function_def)

text \<open>
  C2 (as amended). Calling a tool that has no bound function fails with a
  \<open>ValueError\<close> whose message is \<open>Tool '<name>' has no function defined\<close>; building
  such a tool and serializing it do not fail, and \<open>to_dict\<close> gives the same value with
  and without a bound function. Calling a tool with a bound function gives exactly
  the outcome of the function: when the function raises, its own exception reaches
  the caller unchanged, neither suppressed nor wrapped in a \<open>ToolError\<close>.
\<close>

theorem C2_tool_call_outcomes:
  "(tool_function t = None \<longrightarrow>
      tool_call t kwargs = Inl (ValueError (''Tool '' @ [CHR 0x27] @ tool_name t @ [CHR 0x27]
                                            @ '' has no function defined'')))
   \<and> (tool_function t = Some f \<longrightarrow> tool_call t kwargs = fn_call f kwargs)
   \<and> (tool_function t = Some f \<and> fn_call f kwargs = Inl e \<longrightarrow> tool_call t kwargs = Inl e)
   \<and> to_dict (t\<lparr>tool_function := None\<rparr>) = to_dict t"
  by (simp add: tool_call_def to_dict_def)

theorem C2_tool_call_outcomes_witness:
  "tool_call remote_lookup [] =
     Inl (ValueError (''Tool '' @ [CHR 0x27] @ ''lookup'' @ [CHR 0x27] @ '' has no function defined''))
   \<and> from_function explode = Inr explode_tool
   \<and> tool_call explode_tool [] = Inl (OtherException ''RuntimeError'' ''boom'')
   \<and> to_dict remote_lookup =
       [(''type'', PStr ''function''),
        (''function'', PDict [(''name'', PStr ''lookup''),
                              (''description'', PStr ''Remote lookup''),
                              (''parameters'', PDict [(''type'', PStr ''object''),
                                                      (''properties'', PDict [])])])]"
proof -
  have unbound: "tool_function remote_lookup = None" "tool_name remote_lookup = ''lookup''"
    by (simp_all add: remote_lookup_def)
  have made: "from_function explode = Inr explode_tool"
    by (simp add: from_function_def derive_parameters_def hints_of_def explode_def
                  explode_tool_def Let_def strip_def isspace_def whitespace_def)
  have bound: "tool_function explode_tool = Some explode"
    "fn_call explode [] = Inl (OtherException ''RuntimeError'' ''boom'')"
    by (simp_all add: explode_def explode_tool_def)
  have ser: "to_dict remote_lookup =
       [(''type'', PStr ''function''),
        (''function'', PDict [(''name'', PStr ''lookup''),
                              (''description'', PStr ''Remote lookup''),
                              (''parameters'', PDict [(''type'', PStr ''object''),
                                                      (''properties'', PDict [])])])]"
    by (simp add: to_dict_def remote_lookup_def)
  show ?thesis
    using C2_tool_call_outcomes [of remote_lookup "[]"]
          C2_tool_call_outcomes [of explode_tool "[]" explode
             "OtherException ''RuntimeError'' ''boom''"]
          unbound made bound ser
    by simp
qed

text \<open>
  The tool made from \<open>explode\<close>, whose body raises \<open>RuntimeError("boom")\<close>: the call
  ends in that \<open>RuntimeError\<close>, whose class is not \<open>ToolError\<close> and which does not
  carry the tool's name. And the tool \<open>lookup\<close> bound to a function that raises a
  \<open>ValueError\<close> with the text of the unbound case: its call has the very outcome of
  the call of the unbound tool, so the caller cannot tell the two apart.
\<close>

theorem C2_unwrapped_failure_counterexample:
  "from_function explode = Inr explode_tool
   \<and> tool_call explode_tool [] = Inl (OtherException ''RuntimeError'' ''boom'')
   \<and> exception_class (OtherException ''RuntimeError'' ''boom'')
       \<noteq> exception_class (ToolError ''explode'' ''boom'')
   \<and> tool_call explode_tool [] \<noteq> Inl (ToolError ''explode'' ''boom'')
   \<and> tool_function remote_lookup = None
   \<and> tool_function bound_lookup = Some complain
   \<and> tool_call bound_lookup [] = tool_call remote_lookup []"
  by (simp add: tool_call_def from_function_def derive_parameters_def hints_of_def explode_def
                explode_tool_def remote_lookup_def bound_lookup_def complain_def Let_def
                strip_def isspace_def whitespace_def)

section \<open>Conversation history\<close>

lemma run_history:
  "conversation_history (snd (run a message context)) =
     conversation_history a @ user_entry message #
       (if memory_enabled a then [assistant_entry (placeholder_content a message)] else [])"
  by (simp add: run_def run_locals_def Let_def placeholder_content_def)

lemma run_memory_enabled: "memory_enabled (snd (run a message context)) = memory_enabled a"
  by (simp add: run_def run_locals_def Let_def)

lemma run_name: "name (snd (run a message context)) = name a"
  by (simp add: run_def run_locals_def Let_def)

lemma run_calls_memory_enabled: "memory_enabled (run_calls a calls) = memory_enabled a"
  by (induction a calls rule: run_calls.induct) (simp_all add: run_memory_enabled)

text \<open>With memory, every call adds its user entry and then its assistant entry.\<close>

lemma run_calls_history_enabled:
  "memory_enabled a \<Longrightarrow>
   conversation_history (run_calls a calls) =
     conversation_history a @
       concat (map (\<lambda>(message, context).
                      [user_entry message,
                       assistant_entry (''[Agent '' @ [CHR 0x27] @ name a @ [CHR 0x27]
                                         @ '' would process: '' @ message @ '']'')]) calls)"
proof (induction a calls rule: run_calls.induct)
  case (1 self)
  show ?case by simp
next
  case (2 self message ctx rest)
  then show ?case
    by (simp add: run_memory_enabled run_name run_history placeholder_content_def)
qed

text \<open>Without memory, every call still adds its user entry.\<close>

lemma run_calls_history_disabled:
  "\<not> memory_enabled a \<Longrightarrow>
   conversation_history (run_calls a calls) =
     conversation_history a @ map (\<lambda>(message, context). user_entry message) calls"
proof (induction a calls rule: run_calls.induct)
  case (1 self)
  show ?case by simp
next
  case (2 self message ctx rest)
  then show ?case
    by (simp add: run_memory_enabled run_history)
qed

lemma build_request_messages:
  "dict_get (build_request a message) ''messages'' =
     Some (PList (map PDict (if memory_enabled a then conversation_history a
                             else [user_entry message])))"
  by (simp add: build_request_def Let_def dict_get_dict_set split: option.split)
     (simp add: dict_get_def)

lemma Agent_init_returns:
  "Agent_init n m sp ts me mt temp = Inr a \<Longrightarrow>
   name a = n \<and> memory_enabled a = me \<and> conversation_history a = []"
  by (auto simp: Agent_init_def split: sum.splits)

lemma process_tools_tool_objects:
  "process_tools (map ToolObject ts) processed_tools = Inr (processed_tools @ ts)"
  by (induction ts arbitrary: processed_tools) simp_all

text \<open>Construction returns for every list of \<open>Tool\<close> objects.\<close>

lemma Agent_init_tool_objects:
  "Agent_init n m sp (map ToolObject ts) me mt temp =
     Inr \<lparr>name = n, model = m, system_prompt = sp, tools = ts, memory_enabled = me,
          max_tokens = mt, temperature = temp, conversation_history = []\<rparr>"
  by (simp add: Agent_init_def process_tools_tool_objects)

text \<open>
  C1. An agent built with \<open>memory_enabled = False\<close> is meant to keep an empty history
  through any number of calls of \<open>run\<close>. \<open>Agent(name="bot")\<close> is such an agent, and
  one call of \<open>run\<close> with the message \<open>hi\<close> leaves it the history
  \<open>[{role: user, content: hi}]\<close>, of length 1: the first append of \<open>run\<close> is not
  guarded by \<open>memory_enabled\<close>, while the second one is.
\<close>

theorem C1_history_after_run_without_memory:
  "Agent_init ''bot'' default_model None [] False default_max_tokens default_temperature = Inr bot
   \<and> conversation_history (snd (run bot ''hi'' None)) =
       [[(''role'', PStr ''user''), (''content'', PStr ''hi'')]]
   \<and> length (conversation_history (snd (run bot ''hi'' None))) = 1"
  by (simp add: run_def run_locals_def Agent_init_def bot_def Let_def user_entry_def)

text \<open>
  C3. For every agent that the constructor returns for \<open>memory_enabled = True\<close> and
  every sequence of calls of \<open>run\<close>, the history afterwards is, call by call and in
  call order, the entry \<open>{role: user, content: message}\<close> followed by the entry
  \<open>{role: assistant, content: response.content}\<close>, where the response content is the
  placeholder text for that message; its length is twice the number of calls.
\<close>

theorem C3_memory_enabled_history:
  assumes "Agent_init n m sp ts True mt temp = Inr a"
  shows "conversation_history (run_calls a calls) =
     concat (map (\<lambda>(message, context).
                    [[(''role'', PStr ''user''), (''content'', PStr message)],
                     [(''role'', PStr ''assistant''),
                      (''content'', PStr (''[Agent '' @ [CHR 0x27] @ n @ [CHR 0x27]
                                          @ '' would process: '' @ message @ '']''))]]) calls)
   \<and> length (conversation_history (run_calls a calls)) = 2 * length calls"
proof -
  from Agent_init_returns [OF assms]
  have e: "memory_enabled a" and h: "conversation_history a = []" and nm: "name a = n"
    by simp_all
  have eq: "conversation_history (run_calls a calls) =
     concat (map (\<lambda>(message, context).
                    [[(''role'', PStr ''user''), (''content'', PStr message)],
                     [(''role'', PStr ''assistant''),
                      (''content'', PStr (''[Agent '' @ [CHR 0x27] @ n @ [CHR 0x27]
                                          @ '' would process: '' @ message @ '']''))]]) calls)"
    using run_calls_history_enabled [OF e, of calls]
    by (simp add: h nm user_entry_def assistant_entry_def)
  have "length (concat (map (\<lambda>(message, context).
                    [[(''role'', PStr ''user''), (''content'', PStr message)],
                     [(''role'', PStr ''assistant''),
                      (''content'', PStr (''[Agent '' @ [CHR 0x27] @ n @ [CHR 0x27]
                                          @ '' would process: '' @ message @ '']''))]]) calls))
        = 2 * length calls"
    by (induction calls) auto
  with eq show ?thesis by simp
qed

theorem C3_memory_enabled_history_witness:
  "\<exists>a. Agent_init ''bot'' default_model None [Callable greet, ToolObject remote_lookup] True
          default_max_tokens default_temperature = Inr a
     \<and> conversation_history (run_calls a [(''hi'', None), (''bye'', None)]) =
     [[(''role'', PStr ''user''), (''content'', PStr ''hi'')],
      [(''role'', PStr ''assistant''),
       (''content'', PStr (''[Agent '' @ [CHR 0x27] @ ''bot'' @ [CHR 0x27]
                           @ '' would process: hi]''))],
      [(''role'', PStr ''user''), (''content'', PStr ''bye'')],
      [(''role'', PStr ''assistant''),
       (''content'', PStr (''[Agent '' @ [CHR 0x27] @ ''bot'' @ [CHR 0x27]
                           @ '' would process: bye]''))]]"
proof -
  have "\<exists>t. from_function greet = Inr t"
    by (simp add: from_function_def derive_parameters_def hints_of_def hints_get_def greet_def
                  Let_def)
  then obtain a where a: "Agent_init ''bot'' default_model None
          [Callable greet, ToolObject remote_lookup] True
          default_max_tokens default_temperature = Inr a"
    by (auto simp: Agent_init_def)
  from C3_memory_enabled_history [OF a, of "[(''hi'', None), (''bye'', None)]"] a
  show ?thesis by (intro exI [of _ a]) simp
qed

text \<open>
  C10. Every call of \<open>run\<close> appends \<open>{role: user, content: message}\<close> to the history,
  whatever \<open>memory_enabled\<close> is; only the assistant entry that follows depends on it.
  So an agent that the constructor returns for \<open>memory_enabled = False\<close> has a history
  of length N after N calls, while the \<open>messages\<close> of the request built in a further
  call hold the single current message.
\<close>

theorem C10_user_entry_always_appended:
  "conversation_history (snd (run a message context)) =
     conversation_history a @ [(''role'', PStr ''user''), (''content'', PStr message)] #
       (if memory_enabled a then [assistant_entry (placeholder_content a message)] else [])
   \<and> (Agent_init n m sp ts False mt temp = Inr b \<longrightarrow>
       length (conversation_history (run_calls b calls)) = length calls
       \<and> dict_get (fst (run_locals (run_calls b calls) message context)) ''messages'' =
           Some (PList [PDict [(''role'', PStr ''user''), (''content'', PStr message)]]))"
proof (intro conjI impI)
  show "conversation_history (snd (run a message context)) =
     conversation_history a @ [(''role'', PStr ''user''), (''content'', PStr message)] #
       (if memory_enabled a then [assistant_entry (placeholder_content a message)] else [])"
    by (simp add: run_history user_entry_def)
next
  assume "Agent_init n m sp ts False mt temp = Inr b"
  from Agent_init_returns [OF this]
  have "\<not> memory_enabled b" and "conversation_history b = []"
    by simp_all
  then show "length (conversation_history (run_calls b calls)) = length calls"
    by (simp add: run_calls_history_disabled)
next
  assume "Agent_init n m sp ts False mt temp = Inr b"
  from Agent_init_returns [OF this]
  have "\<not> memory_enabled (run_calls b calls)"
    by (simp add: run_calls_memory_enabled)
  then show "dict_get (fst (run_locals (run_calls b calls) message context)) ''messages'' =
       Some (PList [PDict [(''role'', PStr ''user''), (''content'', PStr message)]])"
    by (simp add: run_locals_def Let_def build_request_messages user_entry_def)
qed

theorem C10_user_entry_always_appended_witness:
  "Agent_init ''bot'' default_model None [] False default_max_tokens default_temperature = Inr bot
   \<and> length (conversation_history
        (run_calls bot [(''hi'', None), (''bye'', None), (''again'', None)])) = 3
   \<and> dict_get (fst (run_locals
        (run_calls bot [(''hi'', None), (''bye'', None), (''again'', None)])
        ''last'' None)) ''messages'' =
       Some (PList [PDict [(''role'', PStr ''user''), (''content'', PStr ''last'')]])"
proof -
  have b: "Agent_init ''bot'' default_model None [] False default_max_tokens default_temperature
             = Inr bot"
    by (simp add: Agent_init_def bot_def)
  show ?thesis
    using C10_user_entry_always_appended
            [of _ "''last''" None "''bot''" default_model None "[]"
                default_max_tokens default_temperature bot
                "[(''hi'', None), (''bye'', None), (''again'', None)]"] b
    by (simp del: run_calls.simps)
qed

section \<open>Construction of the client\<close>

text \<open>
  C8. Constructing a client with a missing API key, or with a key that does not start
  with \<open>ggt_\<close>, ends in an \<open>AuthenticationError\<close>, and the log of calls into the HTTP
  library is what it was before: the error is raised before the HTTP client is
  created and before any request.
\<close>

theorem C8_malformed_key_rejected:
  assumes "k = None \<or> (k = Some s \<and> \<not> prefix ''ggt_'' s)"
  shows "Client_init events k b t d =
           (Inl (AuthenticationError
                   (if k = None \<or> k = Some [] then ''API key is required''
                    else ''Invalid API key format. Key should start with ''
                           @ [CHR 0x27] @ ''ggt_'' @ [CHR 0x27])), events)"
  using assms by (cases "s = []") (auto simp: Client_init_def)

theorem C8_malformed_key_rejected_witness:
  "Client_init [] None None 30 False = (Inl (AuthenticationError ''API key is required''), [])
   \<and> Client_init [] (Some ''invalid_key'') None 30 False =
       (Inl (AuthenticationError (''Invalid API key format. Key should start with ''
                                   @ [CHR 0x27] @ ''ggt_'' @ [CHR 0x27])), [])"
  using C8_malformed_key_rejected [of None "[]" "[]" None 30 False]
        C8_malformed_key_rejected [of "Some ''invalid_key''" "''invalid_key''" "[]" None 30 False]
  by simp

end
